theory Spec2Isabelle
  imports Complex_Main "HOL-Library.Word"
begin

section \<open>The sentiment-analysis notebook\<close>

text \<open>
  The repository is one notebook, \<^verbatim>\<open>sentiment-analysis/tf-sentiment-analysis.ipynb\<close>.
  Its cells are modelled one by one: a cell that builds a value is a definition of that
  value, a Python \<^verbatim>\<open>dict\<close> literal is an association list in the order it is
  written, Python integers are \<^typ>\<open>int\<close>, Python strings are \<^typ>\<open>string\<close>.
  What a cell obtains from outside the notebook (the data set, the word index, the
  execution role, the JSON file of predictions) is a parameter of the definition.
\<close>

subsection \<open>Python values used by the cells\<close>

datatype py_error = KeyError

text \<open>
  A Python \<^verbatim>\<open>float\<close>: a finite value, an infinity or a NaN. The finite values are
  embedded in the reals; comparison of two floats is the comparison of the reals they
  denote, and every ordered comparison with a NaN is false.
\<close>

datatype py_float = Finite real | PosInf | NegInf | NaN

fun float_gt :: "py_float \<Rightarrow> py_float \<Rightarrow> bool" where
  "float_gt NaN _ = False"
| "float_gt _ NaN = False"
| "float_gt (Finite x) (Finite y) = (x > y)"
| "float_gt PosInf PosInf = False"
| "float_gt PosInf _ = True"
| "float_gt NegInf _ = False"
| "float_gt (Finite x) NegInf = True"
| "float_gt (Finite x) PosInf = False"

text \<open>\<^verbatim>\<open>dict(pairs)\<close>: the pairs are inserted from left to right, a later pair
  replacing an earlier one with the same key.\<close>

definition dict_of :: "('k \<times> 'v) list \<Rightarrow> ('k \<rightharpoonup> 'v)" where
  "dict_of pairs = foldl (\<lambda>m (k, v). m(k \<mapsto> v)) Map.empty pairs"

text \<open>\<^verbatim>\<open>d.get(k, default)\<close>: no exception on a missing key.\<close>

definition dict_get :: "('k \<rightharpoonup> 'v) \<Rightarrow> 'k \<Rightarrow> 'v \<Rightarrow> 'v" where
  "dict_get d k dflt = (case d k of None \<Rightarrow> dflt | Some v \<Rightarrow> v)"

text \<open>\<^verbatim>\<open>sep.join(parts)\<close>.\<close>

fun join :: "string \<Rightarrow> string list \<Rightarrow> string" where
  "join sep [] = []"
| "join sep [p] = p"
| "join sep (p # q # ps) = p @ sep @ join sep (q # ps)"

subsection \<open>Cell 4: writing the CSV test file\<close>

text \<open>
  \<^verbatim>\<open>np.savetxt(os.path.join(csv_test_dir, 'csv-test.csv'),\<close>
  \<^verbatim>\<open>           np.array(x_test[:100], dtype=np.int32), fmt='%d', delimiter=",")\<close>

  \<open>x_test\<close> is a two-dimensional integer array, given as the list of its rows.
  The conversion to \<^verbatim>\<open>int32\<close> keeps the low 32 bits of a value and reads them as
  two's complement.
\<close>

definition int32_of :: "int \<Rightarrow> int" where
  "int32_of v = sint (word_of_int v :: 32 word)"

definition np_array_int32 :: "int list list \<Rightarrow> int list list" where
  "np_array_int32 rows = map (map int32_of) rows"

text \<open>\<^verbatim>\<open>'%d' % v\<close>: the decimal digits of \<open>v\<close>, after a minus sign when \<open>v\<close> is negative.\<close>

definition digit_char :: "nat \<Rightarrow> char" where
  "digit_char d = char_of (48 + d)"

fun dec_nat :: "nat \<Rightarrow> string" where
  "dec_nat n = (if n < 10 then [digit_char n] else dec_nat (n div 10) @ [digit_char (n mod 10)])"

declare dec_nat.simps [simp del]

definition fmt_d :: "int \<Rightarrow> string" where
  "fmt_d v = (if v < 0 then ''-'' @ dec_nat (nat (- v)) else dec_nat (nat v))"

definition newline :: string where
  "newline = [CHR 0x0A]"

text \<open>
  \<^verbatim>\<open>np.savetxt\<close> on a two-dimensional array writes, for each row in turn, the row's
  values formatted with \<open>fmt\<close> and separated by the delimiter, then a newline. The file
  handle is the text written so far.
\<close>

fun write_rows :: "(int \<Rightarrow> string) \<Rightarrow> string \<Rightarrow> string \<Rightarrow> int list list \<Rightarrow> string" where
  "write_rows fmt delimiter fh [] = fh"
| "write_rows fmt delimiter fh (row # rows) =
     write_rows fmt delimiter (fh @ join delimiter (map fmt row) @ newline) rows"

definition savetxt :: "int list list \<Rightarrow> (int \<Rightarrow> string) \<Rightarrow> string \<Rightarrow> string" where
  "savetxt X fmt delimiter = write_rows fmt delimiter [] X"

definition csv_test :: "int list list \<Rightarrow> string" where
  "csv_test x_test = savetxt (np_array_int32 (take 100 x_test)) fmt_d '',''"

text \<open>
  Reading the file back, to state what it contains: its lines (each ended by a newline;
  a last line without one is also a line), and the integer a decimal numeral denotes.
\<close>

fun lines_from :: "string \<Rightarrow> string \<Rightarrow> string list" where
  "lines_from cur [] = (if cur = [] then [] else [cur])"
| "lines_from cur (c # cs) =
     (if c = CHR 0x0A then cur # lines_from [] cs else lines_from (cur @ [c]) cs)"

definition file_lines :: "string \<Rightarrow> string list" where
  "file_lines text = lines_from [] text"

definition digit_value :: "char \<Rightarrow> nat" where
  "digit_value c = of_char c - 48"

definition dec_value_nat :: "string \<Rightarrow> nat" where
  "dec_value_nat ds = foldl (\<lambda>acc c. 10 * acc + digit_value c) 0 ds"

definition dec_value :: "string \<Rightarrow> int" where
  "dec_value s = (case s of
       c # ds \<Rightarrow> if c = CHR ''-'' then - int (dec_value_nat ds) else int (dec_value_nat s)
     | [] \<Rightarrow> 0)"

subsection \<open>Cells 26 and 30: decoding a review\<close>

text \<open>
  \<^verbatim>\<open>reverse_word_index = dict([(value, key) for (key, value) in word_index.items()])\<close>
  \<^verbatim>\<open>first_decoded_review = ' '.join([reverse_word_index.get(i - 3, '?') for i in x_test[0]])\<close>

  The word index is given by its items, a list of (word, index) pairs.
\<close>

definition reverse_word_index :: "(string \<times> int) list \<Rightarrow> (int \<rightharpoonup> string)" where
  "reverse_word_index word_index = dict_of (map (\<lambda>(key, value). (value, key)) word_index)"

definition decode_tokens :: "(int \<rightharpoonup> string) \<Rightarrow> int list \<Rightarrow> string list" where
  "decode_tokens rwi review = map (\<lambda>i. dict_get rwi (i - 3) ''?'') review"

definition decoded_review :: "(int \<rightharpoonup> string) \<Rightarrow> int list \<Rightarrow> string" where
  "decoded_review rwi review = join '' '' (decode_tokens rwi review)"

subsection \<open>Cells 8, 10 and 16: the two Estimators\<close>

text \<open>
  \<^verbatim>\<open>git_config = {'repo': 'https://github.com/aws-samples/amazon-sagemaker-script-mode',\<close>
  \<^verbatim>\<open>              'branch': 'master'}\<close>

  \<^verbatim>\<open>git_config\<close> is assigned in cell 8 only and \<^verbatim>\<open>model_dir\<close> in cell 10 only;
  \<^verbatim>\<open>train_instance_type\<close> and \<^verbatim>\<open>hyperparameters\<close> are assigned in cell 10 and
  again in cell 16, each time just before the constructor call that reads them.
  The record holds the keyword arguments of one \<^verbatim>\<open>TensorFlow(...)\<close> call;
  \<^verbatim>\<open>sagemaker.get_execution_role()\<close> is a value of the environment.
\<close>

definition nb_git_config :: "(string \<times> string) list" where
  "nb_git_config =
     [(''repo'', ''https://github.com/aws-samples/amazon-sagemaker-script-mode''),
      (''branch'', ''master'')]"

definition nb_model_dir :: string where
  "nb_model_dir = ''/opt/ml/model''"

record estimator_args =
  git_config :: "(string \<times> string) list"
  source_dir :: string
  entry_point :: string
  model_dir :: string
  train_instance_type :: string
  train_instance_count :: int
  hyperparameters :: "(string \<times> int) list"
  role :: string
  base_job_name :: string
  framework_version :: string
  py_version :: string
  script_mode :: bool

definition local_estimator :: "string \<Rightarrow> estimator_args" where
  "local_estimator execution_role =
     (let train_instance_type = ''local'';
          hyperparameters = [(''epochs'', 1), (''batch_size'', 128)]
      in \<lparr> git_config = nb_git_config,
           source_dir = ''tf-sentiment-script-mode'',
           entry_point = ''sentiment.py'',
           model_dir = nb_model_dir,
           train_instance_type = train_instance_type,
           train_instance_count = 1,
           hyperparameters = hyperparameters,
           role = execution_role,
           base_job_name = ''tf-keras-sentiment'',
           framework_version = ''1.13'',
           py_version = ''py3'',
           script_mode = True \<rparr>)"

definition estimator :: "string \<Rightarrow> estimator_args" where
  "estimator execution_role =
     (let train_instance_type = ''ml.p3.2xlarge'';
          hyperparameters = [(''epochs'', 10), (''batch_size'', 128)]
      in \<lparr> git_config = nb_git_config,
           source_dir = ''tf-sentiment-script-mode'',
           entry_point = ''sentiment.py'',
           model_dir = nb_model_dir,
           train_instance_type = train_instance_type,
           train_instance_count = 1,
           hyperparameters = hyperparameters,
           role = execution_role,
           base_job_name = ''tf-keras-sentiment'',
           framework_version = ''1.13'',
           py_version = ''py3'',
           script_mode = True \<rparr>)"

subsection \<open>Cell 7: where the training script of an Estimator is\<close>

text \<open>
  The notebook's section on Git configuration (cell 7) says how the constructor reads
  its arguments: with \<^verbatim>\<open>git_config\<close>, the entry point is a script stored in a Git
  repository, so that it is not downloaded locally, and the source directory is in the
  same repository; the fields \<^verbatim>\<open>repo\<close>, \<^verbatim>\<open>branch\<close> and \<^verbatim>\<open>commit\<close> locate the
  repository, and without \<^verbatim>\<open>commit\<close> the latest commit of the branch is used.
  A location is the repository URL, the branch and the commit when given, and the path
  of the script inside that repository; a \<^verbatim>\<open>git_config\<close> without \<^verbatim>\<open>repo\<close>
  locates nothing.
\<close>

datatype script_location = GitLocation string "string option" "string option" string

definition script_path :: "estimator_args \<Rightarrow> string" where
  "script_path e = source_dir e @ ''/'' @ entry_point e"

definition locate_script :: "estimator_args \<Rightarrow> script_location option" where
  "locate_script e =
     (case map_of (git_config e) ''repo'' of
        None \<Rightarrow> None
      | Some repo \<Rightarrow>
          Some (GitLocation repo (map_of (git_config e) ''branch'')
                  (map_of (git_config e) ''commit'') (script_path e)))"

text \<open>
  The files of this repository: the notebook is its only file. A file is a script of a
  given name when its path ends with that name.
\<close>

definition repository_files :: "string list" where
  "repository_files = [''sentiment-analysis/tf-sentiment-analysis.ipynb'']"

definition endswith :: "string \<Rightarrow> string \<Rightarrow> bool" where
  "endswith name path = (take (length name) (rev path) = rev name)"

subsection \<open>Cell 24: the list of results\<close>

text \<open>
  \<^verbatim>\<open>results = [float('%.3f'%(item)) for sublist in jstr['predictions'] for item in sublist]\<close>

  The comprehension is two nested loops that append to the list being built. The
  conversion of one item, \<^verbatim>\<open>float('%.3f' % item)\<close>, is a parameter: it is floating-point
  formatting and parsing. \<^verbatim>\<open>jstr['predictions']\<close> raises \<^verbatim>\<open>KeyError\<close> when the key
  is missing.
\<close>

fun for_item :: "('a \<Rightarrow> 'b) \<Rightarrow> 'b list \<Rightarrow> 'a list \<Rightarrow> 'b list" where
  "for_item conv acc [] = acc"
| "for_item conv acc (item # items) = for_item conv (acc @ [conv item]) items"

fun for_sublist :: "('a \<Rightarrow> 'b) \<Rightarrow> 'b list \<Rightarrow> 'a list list \<Rightarrow> 'b list" where
  "for_sublist conv acc [] = acc"
| "for_sublist conv acc (sublist # sublists) = for_sublist conv (for_item conv acc sublist) sublists"

definition results :: "('a \<Rightarrow> 'b) \<Rightarrow> (string \<rightharpoonup> 'a list list) \<Rightarrow> py_error + 'b list" where
  "results conv jstr =
     (case jstr ''predictions'' of
        None \<Rightarrow> Inl KeyError
      | Some predictions \<Rightarrow> Inr (for_sublist conv [] predictions))"

subsection \<open>Cell 34: the ranges of the tuner\<close>

text \<open>
  \<^verbatim>\<open>hyperparameter_ranges = {'epochs': IntegerParameter(10, 50),\<close>
  \<^verbatim>\<open>                         'batch_size': IntegerParameter(64, 256)}\<close>

  The three kinds of range the cell imports, and the values they range over. A range
  \<^verbatim>\<open>IntegerParameter(min_value, max_value)\<close> holds the integers from \<open>min_value\<close> to
  \<open>max_value\<close>, both included. A combination of hyperparameters is admitted by a
  dictionary of ranges when it gives each key of the dictionary, and no other name, a
  value inside the key's range.
\<close>

datatype parameter_range =
    IntegerParameter int int
  | ContinuousParameter real real
  | CategoricalParameter "string list"

datatype hp_value = IntValue int | RealValue real | StrValue string

fun in_range :: "parameter_range \<Rightarrow> hp_value \<Rightarrow> bool" where
  "in_range (IntegerParameter min_value max_value) (IntValue v) = (min_value \<le> v \<and> v \<le> max_value)"
| "in_range (ContinuousParameter min_value max_value) (RealValue v) = (min_value \<le> v \<and> v \<le> max_value)"
| "in_range (CategoricalParameter vs) (StrValue v) = (v \<in> set vs)"
| "in_range _ _ = False"

definition hyperparameter_ranges :: "(string \<times> parameter_range) list" where
  "hyperparameter_ranges =
     [(''epochs'', IntegerParameter 10 50),
      (''batch_size'', IntegerParameter 64 256)]"

definition admitted :: "(string \<times> parameter_range) list \<Rightarrow> (string \<times> hp_value) list \<Rightarrow> bool" where
  "admitted ranges combination =
     (map fst combination = map fst ranges
      \<and> list_all2 (\<lambda>(name, range) (name', v). in_range range v) ranges combination)"

subsection \<open>Cell 28: the sentiment of a score\<close>

text \<open>
  \<^verbatim>\<open>def get_sentiment(score): return 'positive' if score > 0.5 else 'negative'\<close>
\<close>

definition get_sentiment :: "py_float \<Rightarrow> string" where
  "get_sentiment score = (if float_gt score (Finite (1 / 2)) then ''positive'' else ''negative'')"

section \<open>Properties\<close>

subsection \<open>Dictionaries\<close>

lemma foldl_update_map_of:
  "foldl (\<lambda>m (k, v). m(k \<mapsto> v)) m0 pairs = m0 ++ map_of (rev pairs)"
proof (induction pairs arbitrary: m0)
  case Nil
  show ?case by simp
next
  case (Cons p pairs)
  obtain k v where p: "p = (k, v)" by (cases p)
  have "foldl (\<lambda>m (k, v). m(k \<mapsto> v)) m0 (p # pairs) =
        foldl (\<lambda>m (k, v). m(k \<mapsto> v)) (m0(k \<mapsto> v)) pairs"
    unfolding p foldl_Cons by (simp only: prod.case)
  also have "\<dots> = m0(k \<mapsto> v) ++ map_of (rev pairs)"
    by (rule Cons.IH)
  also have "\<dots> = m0 ++ map_of (rev (p # pairs))"
    by (rule ext) (simp add: p map_add_def split: option.split)
  finally show ?case .
qed

lemma dict_of_map_of: "dict_of pairs = map_of (rev pairs)"
  by (simp add: dict_of_def foldl_update_map_of)

lemma dict_of_distinct:
  assumes "distinct (map fst pairs)" and "(k, v) \<in> set pairs"
  shows "dict_of pairs k = Some v"
proof -
  have "distinct (map fst (rev pairs))"
    using assms(1) by (simp add: rev_map [symmetric])
  moreover have "(k, v) \<in> set (rev pairs)"
    using assms(2) by simp
  ultimately show ?thesis
    by (simp add: dict_of_map_of)
qed

lemma dict_of_dom: "dom (dict_of pairs) = fst ` set pairs"
  by (simp add: dict_of_map_of dom_map_of_conv_image_fst)

subsection \<open>The CSV file\<close>

lemma write_rows_concat:
  "write_rows fmt delimiter fh X =
     fh @ concat (map (\<lambda>row. join delimiter (map fmt row) @ newline) X)"
  by (induction X arbitrary: fh) simp_all

lemma lines_from_line:
  "CHR 0x0A \<notin> set l \<Longrightarrow> lines_from cur (l @ CHR 0x0A # rest) = (cur @ l) # lines_from [] rest"
  by (induction l arbitrary: cur) auto

lemma lines_from_concat:
  "\<forall>l \<in> set ls. CHR 0x0A \<notin> set l \<Longrightarrow>
     lines_from [] (concat (map (\<lambda>l. l @ newline) ls)) = ls"
proof (induction ls)
  case Nil
  show ?case by simp
next
  case (Cons l ls)
  then have "CHR 0x0A \<notin> set l" and rest: "lines_from [] (concat (map (\<lambda>l. l @ newline) ls)) = ls"
    by simp_all
  then show ?case
    by (simp add: newline_def lines_from_line)
qed

lemma of_char_digit_char: "d < 10 \<Longrightarrow> of_char (digit_char d) = 48 + d"
  by (simp add: digit_char_def)

lemma digit_value_digit_char: "d < 10 \<Longrightarrow> digit_value (digit_char d) = d"
  by (simp add: digit_value_def of_char_digit_char)

lemma digit_char_neq:
  assumes "d < 10" and "(of_char c :: nat) < 48"
  shows "digit_char d \<noteq> c"
proof
  assume "digit_char d = c"
  then have "(of_char c :: nat) = 48 + d"
    using of_char_digit_char [OF assms(1)] by simp
  with assms(2) show False by simp
qed

lemma dec_nat_chars: "c \<in> set (dec_nat n) \<Longrightarrow> \<exists>d<10. c = digit_char d"
proof (induction n rule: dec_nat.induct)
  case (1 n)
  show ?case
  proof (cases "n < 10")
    case True
    with "1.prems" show ?thesis
      by (auto simp: dec_nat.simps [of n])
  next
    case False
    with "1.prems" have "c \<in> set (dec_nat (n div 10)) \<or> c = digit_char (n mod 10)"
      by (auto simp: dec_nat.simps [of n])
    then show ?thesis
    proof
      assume "c \<in> set (dec_nat (n div 10))"
      with False "1.IH" show ?thesis by simp
    next
      assume "c = digit_char (n mod 10)"
      moreover have "n mod 10 < 10" by simp
      ultimately show ?thesis by blast
    qed
  qed
qed

lemma dec_nat_not_Nil: "dec_nat n \<noteq> []"
  by (simp add: dec_nat.simps [of n])

lemma dec_value_nat_dec_nat: "dec_value_nat (dec_nat n) = n"
proof (induction n rule: dec_nat.induct)
  case (1 n)
  show ?case
  proof (cases "n < 10")
    case True
    then show ?thesis
      by (simp add: dec_nat.simps [of n] dec_value_nat_def digit_value_digit_char)
  next
    case False
    with "1.IH" have "dec_value_nat (dec_nat (n div 10)) = n div 10" by simp
    with False show ?thesis
      by (simp add: dec_nat.simps [of n] dec_value_nat_def digit_value_digit_char)
  qed
qed

lemma fmt_d_no_newline: "CHR 0x0A \<notin> set (fmt_d v)"
proof
  assume a: "CHR 0x0A \<in> set (fmt_d v)"
  then have "CHR 0x0A \<in> set (dec_nat (nat (- v))) \<or> CHR 0x0A \<in> set (dec_nat (nat v))"
    by (auto simp: fmt_d_def split: if_splits)
  then obtain d where d: "d < 10" "CHR 0x0A = digit_char d"
    using dec_nat_chars by blast
  from d(1) have "digit_char d \<noteq> CHR 0x0A"
    by (rule digit_char_neq) simp
  with d(2) show False by simp
qed

lemma fmt_d_no_comma: "CHR '','' \<notin> set (fmt_d v)"
proof
  assume a: "CHR '','' \<in> set (fmt_d v)"
  then have "CHR '','' \<in> set (dec_nat (nat (- v))) \<or> CHR '','' \<in> set (dec_nat (nat v))"
    by (auto simp: fmt_d_def split: if_splits)
  then obtain d where d: "d < 10" "CHR '','' = digit_char d"
    using dec_nat_chars by blast
  from d(1) have "digit_char d \<noteq> CHR '',''"
    by (rule digit_char_neq) simp
  with d(2) show False by simp
qed

lemma join_chars: "c \<in> set (join sep ps) \<Longrightarrow> c \<in> set sep \<or> (\<exists>p \<in> set ps. c \<in> set p)"
  by (induction sep ps rule: join.induct) auto

lemma csv_line_no_newline: "CHR 0x0A \<notin> set (join '','' (map fmt_d row))"
  using join_chars [of "CHR 0x0A" "'',''" "map fmt_d row"] fmt_d_no_newline by auto

lemma dec_value_fmt_d: "dec_value (fmt_d v) = v"
proof (cases "v < 0")
  case True
  then show ?thesis
    by (simp add: fmt_d_def dec_value_def dec_value_nat_dec_nat)
next
  case False
  obtain c cs where cs: "dec_nat (nat v) = c # cs"
    using dec_nat_not_Nil [of "nat v"] by (cases "dec_nat (nat v)") auto
  then have "c \<in> set (dec_nat (nat v))" by simp
  then obtain d where d: "d < 10" "c = digit_char d"
    using dec_nat_chars by blast
  from d(1) have "digit_char d \<noteq> CHR ''-''"
    by (rule digit_char_neq) simp
  with d(2) have "c \<noteq> CHR ''-''" by simp
  moreover have "dec_value_nat (c # cs) = nat v"
    using dec_value_nat_dec_nat [of "nat v"] cs by simp
  ultimately show ?thesis
    using False by (simp add: fmt_d_def dec_value_def cs)
qed

lemma int32_of_range: "- (2 ^ 31) \<le> int32_of v \<and> int32_of v < 2 ^ 31"
  using sint_ge [of "word_of_int v :: 32 word"] sint_lt [of "word_of_int v :: 32 word"]
  by (simp add: int32_of_def)

lemma int32_of_id: "- (2 ^ 31) \<le> v \<Longrightarrow> v < 2 ^ 31 \<Longrightarrow> int32_of v = v"
proof -
  assume "- (2 ^ 31) \<le> v" and "v < 2 ^ 31"
  then have "signed_take_bit 31 v = v"
    by (intro signed_take_bit_int_eq_self) simp_all
  then show ?thesis
    by (simp add: int32_of_def sint_sbintrunc')
qed

lemma csv_test_concat:
  "csv_test x_test =
     concat (map (\<lambda>row. join '','' (map (\<lambda>v. fmt_d (int32_of v)) row) @ newline) (take 100 x_test))"
  by (simp add: csv_test_def savetxt_def write_rows_concat np_array_int32_def comp_def)

lemma csv_test_lines:
  "file_lines (csv_test x_test) =
     map (\<lambda>row. join '','' (map (\<lambda>v. fmt_d (int32_of v)) row)) (take 100 x_test)"
proof -
  let ?ls = "map (\<lambda>row. join '','' (map fmt_d (map int32_of row))) (take 100 x_test)"
  have "csv_test x_test = concat (map (\<lambda>l. l @ newline) ?ls)"
    by (simp add: csv_test_concat comp_def)
  moreover have "\<forall>l \<in> set ?ls. CHR 0x0A \<notin> set l"
  proof
    fix l assume "l \<in> set ?ls"
    then obtain row where "l = join '','' (map fmt_d (map int32_of row))"
      by auto
    then show "CHR 0x0A \<notin> set l"
      by (simp only: csv_line_no_newline not_False_eq_True)
  qed
  ultimately have "file_lines (csv_test x_test) = ?ls"
    by (simp only: file_lines_def lines_from_concat)
  then show ?thesis by (simp add: comp_def)
qed

text \<open>
  Claim C4. The CSV test file holds the first 100 rows of \<open>x_test\<close> and nothing else:
  its lines are, in order, those rows (all of them when there are fewer than 100), each
  row being its values converted to \<^verbatim>\<open>int32\<close>, written in decimal and separated by
  commas, each line ended by a newline. Rows from index 100 on have no effect on the
  file. The decimal numeral of a value denotes that value and contains no comma, and
  the conversion leaves a value in the \<^verbatim>\<open>int32\<close> range unchanged.
\<close>

theorem csv_test_first_100_rows:
  "file_lines (csv_test x_test) =
     map (\<lambda>row. join '','' (map (\<lambda>v. fmt_d (int32_of v)) row)) (take 100 x_test)
   \<and> length (file_lines (csv_test x_test)) = min 100 (length x_test)
   \<and> (i < 100 \<and> i < length x_test \<longrightarrow>
        file_lines (csv_test x_test) ! i = join '','' (map (\<lambda>v. fmt_d (int32_of v)) (x_test ! i)))
   \<and> csv_test x_test =
       concat (map (\<lambda>row. join '','' (map (\<lambda>v. fmt_d (int32_of v)) row) @ newline) (take 100 x_test))
   \<and> (100 \<le> length x_test \<longrightarrow> csv_test (take 100 x_test @ later_rows) = csv_test x_test)
   \<and> csv_test x_test = csv_test (take 100 x_test)
   \<and> dec_value (fmt_d (int32_of v)) = int32_of v
   \<and> CHR '','' \<notin> set (fmt_d (int32_of v))
   \<and> - (2 ^ 31) \<le> int32_of v \<and> int32_of v < 2 ^ 31
   \<and> (- (2 ^ 31) \<le> v \<and> v < 2 ^ 31 \<longrightarrow> int32_of v = v)"
proof -
  have "csv_test (take 100 x_test @ later_rows) = csv_test x_test" if "100 \<le> length x_test"
    using that by (simp add: csv_test_def)
  moreover have "csv_test x_test = csv_test (take 100 x_test)"
    by (simp add: csv_test_def)
  moreover have "length (file_lines (csv_test x_test)) = min 100 (length x_test)"
    by (simp add: csv_test_lines min.commute)
  moreover have "file_lines (csv_test x_test) ! i = join '','' (map (\<lambda>v. fmt_d (int32_of v)) (x_test ! i))"
    if "i < 100" "i < length x_test"
    using that by (simp add: csv_test_lines)
  ultimately show ?thesis
    using csv_test_lines [of x_test] csv_test_concat [of x_test] dec_value_fmt_d [of "int32_of v"]
      fmt_d_no_comma [of "int32_of v"] int32_of_id [of v] int32_of_range [of v]
    by blast
qed

theorem csv_test_first_100_rows_witness:
  "length (file_lines (csv_test (replicate 101 [20000, 0, -1]))) = 100
   \<and> file_lines (csv_test (replicate 101 [20000, 0, -1])) ! 99 = ''20000,0,-1''
   \<and> csv_test (replicate 100 [20000, 0, -1] @ [[7]]) = csv_test (replicate 101 [20000, 0, -1])
   \<and> int32_of 20000 = 20000"
proof -
  have "fmt_d (int32_of 20000) = ''20000''" "fmt_d (int32_of 0) = ''0''" "fmt_d (int32_of (- 1)) = ''-1''"
    by (simp_all add: int32_of_def fmt_d_def dec_nat.simps digit_char_def char_of_def bit_Suc_0_iff)
  note fmts = this
  note t = csv_test_first_100_rows [of "replicate 101 [20000, 0, -1]" 99 "[[7]]" 20000]
  from t have n: "length (file_lines (csv_test (replicate 101 [20000, 0, -1]))) =
      min 100 (length (replicate 101 [20000::int, 0, -1]))"
    by blast
  have "(99::nat) < 100 \<and> 99 < length (replicate 101 [20000::int, 0, -1])"
    by simp
  with t have l: "file_lines (csv_test (replicate 101 [20000, 0, -1])) ! 99 =
      join '','' (map (\<lambda>v. fmt_d (int32_of v)) (replicate 101 [20000, 0, -1] ! 99))"
    by blast
  have "- (2 ^ 31) \<le> (20000::int) \<and> (20000::int) < 2 ^ 31"
    by simp
  with t have i: "int32_of 20000 = 20000"
    by blast
  have "100 \<le> length (replicate 101 [20000::int, 0, -1])"
    by simp
  with t have r: "csv_test (take 100 (replicate 101 [20000, 0, -1]) @ [[7]]) =
      csv_test (replicate 101 [20000, 0, -1])"
    by blast
  from n l i r fmts show ?thesis
    by simp
qed

subsection \<open>The Estimators\<close>

text \<open>
  Claim C5. The Estimator for hosted training has the arguments of the Local Mode
  Estimator with two of them replaced: \<^verbatim>\<open>train_instance_type\<close> is
  \<^verbatim>\<open>'ml.p3.2xlarge'\<close> instead of \<^verbatim>\<open>'local'\<close>, and
  \<^verbatim>\<open>hyperparameters['epochs']\<close> is 10 instead of 1, with
  \<^verbatim>\<open>hyperparameters['batch_size']\<close> 128 in both. Every other argument is the same.
\<close>

theorem estimator_differs_in_two_arguments:
  "estimator r = (local_estimator r)
      \<lparr> train_instance_type := ''ml.p3.2xlarge'',
        hyperparameters := [(''epochs'', 10), (''batch_size'', 128)] \<rparr>
   \<and> train_instance_type (local_estimator r) = ''local''
   \<and> train_instance_type (estimator r) = ''ml.p3.2xlarge''
   \<and> hyperparameters (local_estimator r) = [(''epochs'', 1), (''batch_size'', 128)]
   \<and> hyperparameters (estimator r) = [(''epochs'', 10), (''batch_size'', 128)]
   \<and> map_of (hyperparameters (local_estimator r)) ''epochs'' = Some 1
   \<and> map_of (hyperparameters (estimator r)) ''epochs'' = Some 10
   \<and> map_of (hyperparameters (local_estimator r)) ''batch_size'' = Some 128
   \<and> map_of (hyperparameters (estimator r)) ''batch_size'' = Some 128
   \<and> git_config (estimator r) = git_config (local_estimator r)
   \<and> source_dir (estimator r) = source_dir (local_estimator r)
   \<and> entry_point (estimator r) = entry_point (local_estimator r)
   \<and> model_dir (estimator r) = model_dir (local_estimator r)
   \<and> train_instance_count (estimator r) = train_instance_count (local_estimator r)
   \<and> role (estimator r) = role (local_estimator r)
   \<and> base_job_name (estimator r) = base_job_name (local_estimator r)
   \<and> framework_version (estimator r) = framework_version (local_estimator r)
   \<and> py_version (estimator r) = py_version (local_estimator r)
   \<and> script_mode (estimator r) = script_mode (local_estimator r)"
  by (simp add: estimator_def local_estimator_def)

lemma locate_script_git:
  assumes "map_of (git_config e) ''repo'' = Some repo"
  shows "locate_script e =
     Some (GitLocation repo (map_of (git_config e) ''branch'') (map_of (git_config e) ''commit'')
             (source_dir e @ ''/'' @ entry_point e))"
  using assms by (simp add: locate_script_def script_path_def)

lemma no_training_script_in_repository:
  "filter (endswith ''sentiment.py'') repository_files = []"
  by (simp add: repository_files_def endswith_def)

text \<open>
  Claim C7. The training script is not a file of this repository: no file of the
  repository is \<^verbatim>\<open>sentiment.py\<close>, and each of the two Estimators the notebook
  constructs locates its script by reference, as the file
  \<^verbatim>\<open>tf-sentiment-script-mode/sentiment.py\<close> of the Git repository
  \<^verbatim>\<open>https://github.com/aws-samples/amazon-sagemaker-script-mode\<close> on the branch
  \<^verbatim>\<open>master\<close>, with no commit given. Both Estimators name the entry point
  \<^verbatim>\<open>'sentiment.py'\<close> in the source directory \<^verbatim>\<open>'tf-sentiment-script-mode'\<close>
  and pass the \<^verbatim>\<open>git_config\<close> of cell 8, whose only keys are \<^verbatim>\<open>repo\<close> and
  \<^verbatim>\<open>branch\<close>.
\<close>

theorem training_script_by_git_reference:
  "entry_point (local_estimator r) = ''sentiment.py''
   \<and> source_dir (local_estimator r) = ''tf-sentiment-script-mode''
   \<and> git_config (local_estimator r) = nb_git_config
   \<and> entry_point (estimator r) = ''sentiment.py''
   \<and> source_dir (estimator r) = ''tf-sentiment-script-mode''
   \<and> git_config (estimator r) = nb_git_config
   \<and> map_of nb_git_config ''repo'' = Some ''https://github.com/aws-samples/amazon-sagemaker-script-mode''
   \<and> map_of nb_git_config ''branch'' = Some ''master''
   \<and> map_of nb_git_config ''commit'' = None
   \<and> map fst nb_git_config = [''repo'', ''branch'']
   \<and> locate_script (local_estimator r) =
       Some (GitLocation ''https://github.com/aws-samples/amazon-sagemaker-script-mode''
               (Some ''master'') None ''tf-sentiment-script-mode/sentiment.py'')
   \<and> locate_script (estimator r) =
       Some (GitLocation ''https://github.com/aws-samples/amazon-sagemaker-script-mode''
               (Some ''master'') None ''tf-sentiment-script-mode/sentiment.py'')
   \<and> script_path (local_estimator r) \<notin> set repository_files
   \<and> script_path (estimator r) \<notin> set repository_files
   \<and> entry_point (local_estimator r) \<notin> set repository_files
   \<and> entry_point (estimator r) \<notin> set repository_files
   \<and> filter (endswith (entry_point (local_estimator r))) repository_files = []
   \<and> filter (endswith (entry_point (estimator r))) repository_files = []"
proof -
  have fields:
    "entry_point (local_estimator r) = ''sentiment.py''"
    "source_dir (local_estimator r) = ''tf-sentiment-script-mode''"
    "git_config (local_estimator r) = nb_git_config"
    "entry_point (estimator r) = ''sentiment.py''"
    "source_dir (estimator r) = ''tf-sentiment-script-mode''"
    "git_config (estimator r) = nb_git_config"
    by (simp_all add: estimator_def local_estimator_def)
  have config:
    "map_of nb_git_config ''repo'' = Some ''https://github.com/aws-samples/amazon-sagemaker-script-mode''"
    "map_of nb_git_config ''branch'' = Some ''master''"
    "map_of nb_git_config ''commit'' = None"
    "map fst nb_git_config = [''repo'', ''branch'']"
    by (simp_all add: nb_git_config_def)
  have located:
    "locate_script (local_estimator r) =
       Some (GitLocation ''https://github.com/aws-samples/amazon-sagemaker-script-mode''
               (Some ''master'') None ''tf-sentiment-script-mode/sentiment.py'')"
    "locate_script (estimator r) =
       Some (GitLocation ''https://github.com/aws-samples/amazon-sagemaker-script-mode''
               (Some ''master'') None ''tf-sentiment-script-mode/sentiment.py'')"
    using locate_script_git [of "local_estimator r"] locate_script_git [of "estimator r"]
    by (simp_all add: fields config)
  have absent:
    "script_path (local_estimator r) \<notin> set repository_files"
    "script_path (estimator r) \<notin> set repository_files"
    "entry_point (local_estimator r) \<notin> set repository_files"
    "entry_point (estimator r) \<notin> set repository_files"
    by (simp_all add: script_path_def fields repository_files_def)
  have unnamed:
    "filter (endswith (entry_point (local_estimator r))) repository_files = []"
    "filter (endswith (entry_point (estimator r))) repository_files = []"
    by (simp_all only: fields no_training_script_in_repository)
  from fields config located absent unnamed show ?thesis
    by (intro conjI)
qed

subsection \<open>The list of results\<close>

lemma for_item_eq: "for_item conv acc items = acc @ map conv items"
  by (induction items arbitrary: acc) simp_all

lemma for_sublist_eq: "for_sublist conv acc sublists = acc @ map conv (concat sublists)"
  by (induction sublists arbitrary: acc) (simp_all add: for_item_eq)

text \<open>
  Claim C3. When the JSON object has the key \<^verbatim>\<open>predictions\<close>, the list of results
  is the concatenation, in order, of the sublists of predictions with every item
  converted: its length is the total number of prediction values, and its \<open>k\<close>-th
  element is the conversion of the \<open>k\<close>-th prediction value.
\<close>

theorem results_flatten:
  assumes "jstr ''predictions'' = Some predictions"
  shows "\<exists>rs. results conv jstr = Inr rs
            \<and> rs = map conv (concat predictions)
            \<and> length rs = sum_list (map length predictions)
            \<and> (\<forall>k < length rs. rs ! k = conv (concat predictions ! k))"
  using assms by (simp add: results_def for_sublist_eq length_concat)

theorem results_flatten_witness:
  "[''predictions'' \<mapsto> [[1::int, 2], [], [3]]] ''predictions'' = Some [[1, 2], [], [3]]
   \<and> results (\<lambda>x. 10 * x) [''predictions'' \<mapsto> [[1::int, 2], [], [3]]] = Inr [10, 20, 30]"
proof -
  have h: "[''predictions'' \<mapsto> [[1::int, 2], [], [3]]] ''predictions'' = Some [[1, 2], [], [3]]"
    by simp
  show ?thesis
    using h results_flatten [of "[''predictions'' \<mapsto> [[1::int, 2], [], [3]]]" "[[1, 2], [], [3]]" "\<lambda>x. 10 * x"]
    by auto
qed

subsection \<open>The ranges of the tuner\<close>

text \<open>
  Claim C6. The combinations admitted by \<^verbatim>\<open>hyperparameter_ranges\<close> are exactly those
  that give \<^verbatim>\<open>epochs\<close> an integer from 10 to 50 and \<^verbatim>\<open>batch_size\<close> an integer from
  64 to 256, and give a value to no other hyperparameter.
\<close>

theorem tuning_ranges_bounds:
  "admitted hyperparameter_ranges combination \<longleftrightarrow>
     (\<exists>epochs batch_size.
        combination = [(''epochs'', IntValue epochs), (''batch_size'', IntValue batch_size)]
        \<and> 10 \<le> epochs \<and> epochs \<le> 50 \<and> 64 \<le> batch_size \<and> batch_size \<le> 256)"
proof
  assume a: "admitted hyperparameter_ranges combination"
  then obtain n1 v1 n2 v2 where c: "combination = [(n1, v1), (n2, v2)]"
    and r: "in_range (IntegerParameter 10 50) v1" "in_range (IntegerParameter 64 256) v2"
    by (auto simp: admitted_def hyperparameter_ranges_def list_all2_Cons1)
  from a c have n: "n1 = ''epochs''" "n2 = ''batch_size''"
    by (simp_all add: admitted_def hyperparameter_ranges_def)
  from r(1) obtain e where e: "v1 = IntValue e" "10 \<le> e" "e \<le> 50"
    by (cases v1) simp_all
  from r(2) obtain b where b: "v2 = IntValue b" "64 \<le> b" "b \<le> 256"
    by (cases v2) simp_all
  from c n e b show "\<exists>epochs batch_size.
        combination = [(''epochs'', IntValue epochs), (''batch_size'', IntValue batch_size)]
        \<and> 10 \<le> epochs \<and> epochs \<le> 50 \<and> 64 \<le> batch_size \<and> batch_size \<le> 256"
    by blast
next
  assume "\<exists>epochs batch_size.
        combination = [(''epochs'', IntValue epochs), (''batch_size'', IntValue batch_size)]
        \<and> 10 \<le> epochs \<and> epochs \<le> 50 \<and> 64 \<le> batch_size \<and> batch_size \<le> 256"
  then show "admitted hyperparameter_ranges combination"
    by (auto simp: admitted_def hyperparameter_ranges_def)
qed

theorem tuning_ranges_bounds_witness:
  "admitted hyperparameter_ranges [(''epochs'', IntValue 10), (''batch_size'', IntValue 256)]
   \<and> \<not> admitted hyperparameter_ranges [(''epochs'', IntValue 9), (''batch_size'', IntValue 256)]
   \<and> \<not> admitted hyperparameter_ranges [(''epochs'', IntValue 10), (''batch_size'', IntValue 257)]"
  using tuning_ranges_bounds [of "[(''epochs'', IntValue 10), (''batch_size'', IntValue 256)]"]
    tuning_ranges_bounds [of "[(''epochs'', IntValue 9), (''batch_size'', IntValue 256)]"]
    tuning_ranges_bounds [of "[(''epochs'', IntValue 10), (''batch_size'', IntValue 257)]"]
  by simp

subsection \<open>Decoding a review\<close>

lemma reverse_word_index_lookup:
  assumes "distinct (map snd word_index)" and "(w, i) \<in> set word_index"
  shows "reverse_word_index word_index i = Some w"
proof -
  let ?pairs = "map (\<lambda>(key, value). (value, key)) word_index"
  have keys: "map fst ?pairs = map snd word_index"
    by (induction word_index) auto
  have "distinct (map fst ?pairs)"
    unfolding keys by (rule assms(1))
  moreover have "(i, w) \<in> set ?pairs"
    using assms(2) by force
  ultimately show ?thesis
    unfolding reverse_word_index_def by (rule dict_of_distinct)
qed

lemma reverse_word_index_dom:
  "dom (reverse_word_index word_index) = snd ` set word_index"
  by (force simp: reverse_word_index_def dict_of_dom)

lemma decode_tokens_padding:
  "rwi (- 3) = None \<Longrightarrow>
     decode_tokens rwi (replicate n 0 @ rest) = replicate n ''?'' @ decode_tokens rwi rest"
  by (simp add: decode_tokens_def dict_get_def map_replicate_const)

text \<open>
  Claim C2. When no two words of the word index share an index, the reversed index
  sends the index of every (word, index) pair back to the word, so decoding the
  encoded value \<open>index + 3\<close> gives the word again; a whole text encoded this way
  decodes to its words, in order.
\<close>

theorem decode_round_trip:
  assumes "distinct (map snd word_index)"
  shows "((w, i) \<in> set word_index \<longrightarrow>
            reverse_word_index word_index i = Some w
          \<and> dict_get (reverse_word_index word_index) ((i + 3) - 3) ''?'' = w)
       \<and> (set ps \<subseteq> set word_index \<longrightarrow>
            decode_tokens (reverse_word_index word_index) (map (\<lambda>(w, i). i + 3) ps) = map fst ps)"
proof -
  have one: "dict_get (reverse_word_index word_index) ((i + 3) - 3) ''?'' = w"
    if "(w, i) \<in> set word_index" for w i
    using reverse_word_index_lookup [OF assms that] by (simp add: dict_get_def)
  have "decode_tokens (reverse_word_index word_index) (map (\<lambda>(w, i). i + 3) ps) = map fst ps"
    if "set ps \<subseteq> set word_index"
    using that
  proof (induction ps)
    case Nil
    show ?case by (simp add: decode_tokens_def)
  next
    case (Cons p ps)
    obtain w i where p: "p = (w, i)" by (cases p)
    have "(w, i) \<in> set word_index" using Cons.prems p by simp
    from one [OF this] Cons show ?case
      by (simp add: decode_tokens_def p)
  qed
  then show ?thesis
    using one reverse_word_index_lookup [OF assms] by blast
qed

theorem decode_round_trip_witness:
  "distinct (map snd [(''the'', 1::int), (''and'', 2)])
   \<and> reverse_word_index [(''the'', 1), (''and'', 2)] 2 = Some ''and''
   \<and> dict_get (reverse_word_index [(''the'', 1), (''and'', 2)]) ((2 + 3) - 3) ''?'' = ''and''
   \<and> decode_tokens (reverse_word_index [(''the'', 1), (''and'', 2)]) [5, 4, 5] = [''and'', ''the'', ''and'']"
proof -
  have d: "distinct (map snd [(''the'', 1::int), (''and'', 2)])" by simp
  show ?thesis
    using d decode_round_trip [OF d, of "''and''" 2 "[(''and'', 2), (''the'', 1), (''and'', 2)]"]
    by simp
qed

text \<open>
  Claim C9. Decoding one integer \<open>i\<close> of a review has no failing case: it gives the word
  stored under \<open>i - 3\<close> when there is one and \<^verbatim>\<open>'?'\<close> otherwise, so a review decodes
  to as many tokens as it has integers. When \<open>-3\<close>, \<open>-2\<close> and \<open>-1\<close> are not word
  indices, the reserved values 0, 1 and 2 decode to \<^verbatim>\<open>'?'\<close>, and a prefix of
  padding zeros decodes to a run of \<^verbatim>\<open>'?'\<close> tokens.
\<close>

theorem decode_never_raises:
  "(rwi (i - 3) = None \<longrightarrow> dict_get rwi (i - 3) ''?'' = ''?'')
   \<and> (rwi (i - 3) = Some w \<longrightarrow> dict_get rwi (i - 3) ''?'' = w)
   \<and> length (decode_tokens rwi review) = length review
   \<and> (\<forall>k < length review. decode_tokens rwi review ! k = dict_get rwi (review ! k - 3) ''?'')
   \<and> (i \<in> {0, 1, 2} \<and> {- 3, - 2, - 1} \<inter> snd ` set word_index = {} \<longrightarrow>
        dict_get (reverse_word_index word_index) (i - 3) ''?'' = ''?'')
   \<and> (- 3 \<notin> snd ` set word_index \<longrightarrow>
        decode_tokens (reverse_word_index word_index) (replicate n 0 @ rest) =
          replicate n ''?'' @ decode_tokens (reverse_word_index word_index) rest
      \<and> decoded_review (reverse_word_index word_index) (replicate n 0) = join '' '' (replicate n ''?''))"
proof -
  have pad: "reverse_word_index word_index (- 3) = None" if "- 3 \<notin> snd ` set word_index"
    using that reverse_word_index_dom [of word_index] by (auto simp: domIff)
  have "dict_get (reverse_word_index word_index) (i - 3) ''?'' = ''?''"
    if "i \<in> {0, 1, 2}" "{- 3, - 2, - 1} \<inter> snd ` set word_index = {}"
  proof -
    have "i - 3 \<notin> S" if "i \<in> {0, 1, 2}" "{- 3, - 2, - 1} \<inter> S = {}" for S :: "int set"
      using that by auto
    from this [OF that] have "i - 3 \<notin> snd ` set word_index" .
    then have "i - 3 \<notin> dom (reverse_word_index word_index)"
      unfolding reverse_word_index_dom .
    then show ?thesis by (simp add: dict_get_def domIff)
  qed
  moreover have "decoded_review (reverse_word_index word_index) (replicate n 0) = join '' '' (replicate n ''?'')"
    if "- 3 \<notin> snd ` set word_index"
    using decode_tokens_padding [of "reverse_word_index word_index" n "[]"] pad [OF that]
    by (simp add: decoded_review_def decode_tokens_def dict_get_def)
  ultimately show ?thesis
    using decode_tokens_padding [of "reverse_word_index word_index" n rest] pad
    by (simp add: dict_get_def decode_tokens_def)
qed

theorem decode_never_raises_witness:
  "decode_tokens (reverse_word_index [(''the'', 1), (''and'', 2)]) [0, 0, 0, 1, 4, 2, 5, 9]
     = [''?'', ''?'', ''?'', ''?'', ''the'', ''?'', ''and'', ''?'']
   \<and> decoded_review (reverse_word_index [(''the'', 1), (''and'', 2)]) [0, 0, 0] = ''? ? ?''"
  using decode_never_raises [of "reverse_word_index [(''the'', 1), (''and'', 2)]" 0 "''x''" "[]"
      "[(''the'', 1), (''and'', 2)]" 3 "[1, 4, 2, 5, 9]"]
  by (simp add: decode_tokens_def dict_get_def reverse_word_index_def dict_of_def numeral_3_eq_3)

subsection \<open>The sentiment of a score\<close>

text \<open>
  Claim C10. \<^verbatim>\<open>get_sentiment\<close> returns \<^verbatim>\<open>'positive'\<close> exactly when the score is
  greater than 0.5 and \<^verbatim>\<open>'negative'\<close> otherwise; the score 0.5 itself is
  \<^verbatim>\<open>'negative'\<close>, and no other string is returned, whatever the score (a score
  outside the interval from 0 to 1, an infinity or a NaN included).
\<close>

theorem get_sentiment_threshold:
  "(get_sentiment score = ''positive'') = float_gt score (Finite (1 / 2))
   \<and> (get_sentiment score = ''negative'') = (\<not> float_gt score (Finite (1 / 2)))
   \<and> get_sentiment (Finite x) = (if x > 1 / 2 then ''positive'' else ''negative'')
   \<and> get_sentiment (Finite (1 / 2)) = ''negative''
   \<and> get_sentiment NaN = ''negative''
   \<and> get_sentiment PosInf = ''positive''
   \<and> get_sentiment NegInf = ''negative''
   \<and> get_sentiment score \<in> {''positive'', ''negative''}"
  by (simp add: get_sentiment_def)

theorem get_sentiment_threshold_witness:
  "get_sentiment (Finite (3 / 4)) = ''positive''
   \<and> get_sentiment (Finite (1 / 4)) = ''negative''
   \<and> get_sentiment (Finite 7) = ''positive''
   \<and> get_sentiment (Finite (- 2)) = ''negative''"
  using get_sentiment_threshold [of "Finite (3 / 4)" "3 / 4"]
    get_sentiment_threshold [of "Finite (1 / 4)" "1 / 4"]
    get_sentiment_threshold [of "Finite 7" 7]
    get_sentiment_threshold [of "Finite (- 2)" "- 2"]
  by simp

end
